theory Spec2Isabelle
  imports Main "HOL-Library.AList" "HOL-Library.Sublist"
begin

section \<open>The notes server of \<^verbatim>\<open>src/index.ts\<close>\<close>

text \<open>
  The server keeps one module-level \<^verbatim>\<open>Map<string, Note>\<close> and registers three request
  handlers that read or change it: tool calls, resource reads and prompt retrieval. The
  handlers are modelled as functions from the request parameters, the clock readings taken
  while the request is handled, and the map, to the response and the map afterwards. A
  \<^verbatim>\<open>throw\<close> is the left injection of a sum.
\<close>

subsection \<open>JavaScript values\<close>

text \<open>
  The arguments of a request are parsed JSON, and the \<^verbatim>\<open>as string\<close> casts of the source
  check nothing at run time, so every field read from a request holds an arbitrary value.
  Numbers are modelled as integers (those that \<^verbatim>\<open>Number.prototype.toString\<close> prints in
  plain decimal); strings as Isabelle strings, whose characters are the code units below 256.
  An array or object is never the same reference as one that came from another place of a
  request or from another request.
\<close>

datatype jv =
    JUndef
  | JNull
  | JBool bool
  | JNum int
  | JStr string
  | JArr "jv list"
  | JObj "(string \<times> jv) list"

datatype js_error = Error string | TypeError string

fun message :: "js_error \<Rightarrow> string" where
  "message (Error m) = m"
| "message (TypeError m) = m"

definition bindE :: "js_error + 'a \<Rightarrow> ('a \<Rightarrow> js_error + 'b) \<Rightarrow> js_error + 'b" where
  "bindE m f = (case m of Inl e \<Rightarrow> Inl e | Inr x \<Rightarrow> f x)"

text \<open>\<^verbatim>\<open>if (v)\<close>, \<^verbatim>\<open>v || d\<close>, \<^verbatim>\<open>!v\<close>: the falsy values are undefined, null, false, 0 and the
  empty string.\<close>

fun truthy :: "jv \<Rightarrow> bool" where
  "truthy JUndef = False"
| "truthy JNull = False"
| "truthy (JBool b) = b"
| "truthy (JNum n) = (n \<noteq> 0)"
| "truthy (JStr s) = (s \<noteq> [])"
| "truthy (JArr xs) = True"
| "truthy (JObj kvs) = True"

text \<open>The comparison of \<^verbatim>\<open>Map\<close> keys, \<^verbatim>\<open>Set\<close> members and \<^verbatim>\<open>Array.prototype.includes\<close>:
  primitives by value, arrays and objects by reference.\<close>

fun same_value_zero :: "jv \<Rightarrow> jv \<Rightarrow> bool" where
  "same_value_zero (JArr xs) y = False"
| "same_value_zero (JObj kvs) y = False"
| "same_value_zero x y = (x = y)"

definition digit_char :: "nat \<Rightarrow> char" where
  "digit_char d = ''0123456789'' ! d"

fun nat_toString :: "nat \<Rightarrow> string" where
  "nat_toString n =
     (if n < 10 then [digit_char n] else nat_toString (n div 10) @ [digit_char (n mod 10)])"

declare nat_toString.simps [simp del]

definition int_toString :: "int \<Rightarrow> string" where
  "int_toString i = (if i < 0 then CHR ''-'' # nat_toString (nat (- i)) else nat_toString (nat i))"

text \<open>
  \<^verbatim>\<open>${v}\<close> in a template literal and the conversion of the elements in
  \<^verbatim>\<open>Array.prototype.join\<close>. A parsed object whose own key \<^verbatim>\<open>toString\<close> hides the inherited
  method cannot be converted. \<^verbatim>\<open>join\<close> renders undefined and null elements as the empty
  string.
\<close>

fun ToString :: "jv \<Rightarrow> js_error + string"
  and join :: "string \<Rightarrow> jv list \<Rightarrow> js_error + string" where
  "ToString JUndef = Inr ''undefined''"
| "ToString JNull = Inr ''null''"
| "ToString (JBool b) = Inr (if b then ''true'' else ''false'')"
| "ToString (JNum n) = Inr (int_toString n)"
| "ToString (JStr s) = Inr s"
| "ToString (JArr xs) = join '','' xs"
| "ToString (JObj kvs) =
     (if ''toString'' \<in> fst ` set kvs
      then Inl (TypeError ''Cannot convert object to primitive value'')
      else Inr ''[object Object]'')"
| "join sep [] = Inr ''''"
| "join sep (x # xs) =
     (case (if x = JUndef \<or> x = JNull then Inr '''' else ToString x) of
        Inl e \<Rightarrow> Inl e
      | Inr s \<Rightarrow>
          (if xs = [] then Inr s
           else (case join sep xs of Inl e \<Rightarrow> Inl e | Inr r \<Rightarrow> Inr (s @ sep @ r))))"

subsection \<open>String built-ins\<close>

fun startsWith :: "string \<Rightarrow> string \<Rightarrow> bool" where
  "startsWith s [] = True"
| "startsWith [] (c # cs) = False"
| "startsWith (a # as) (c # cs) = (a = c \<and> startsWith as cs)"

text \<open>\<^verbatim>\<open>s.includes(t)\<close>: \<open>t\<close> starts at some position of \<open>s\<close>.\<close>

fun includes_str :: "string \<Rightarrow> string \<Rightarrow> bool" where
  "includes_str [] t = (t = [])"
| "includes_str (c # cs) t = (startsWith (c # cs) t \<or> includes_str cs t)"

text \<open>
  \<^verbatim>\<open>String.prototype.toLowerCase\<close> on strings of code units below 256, where it maps
  character by character: the letters it changes, and what it makes of them. On code units
  from 256 on the built-in also has mappings that depend on the neighbouring characters or
  change the length (the final sigma, U+0130); such strings are outside this model.
\<close>

definition upper_letters :: string where
  "upper_letters = ''ABCDEFGHIJKLMNOPQRSTUVWXYZ'' @
       [CHR 0xC0, CHR 0xC1, CHR 0xC2, CHR 0xC3, CHR 0xC4, CHR 0xC5, CHR 0xC6, CHR 0xC7,
        CHR 0xC8, CHR 0xC9, CHR 0xCA, CHR 0xCB, CHR 0xCC, CHR 0xCD, CHR 0xCE, CHR 0xCF,
        CHR 0xD0, CHR 0xD1, CHR 0xD2, CHR 0xD3, CHR 0xD4, CHR 0xD5, CHR 0xD6, CHR 0xD8,
        CHR 0xD9, CHR 0xDA, CHR 0xDB, CHR 0xDC, CHR 0xDD, CHR 0xDE]"

definition lower_letters :: string where
  "lower_letters = ''abcdefghijklmnopqrstuvwxyz'' @
       [CHR 0xE0, CHR 0xE1, CHR 0xE2, CHR 0xE3, CHR 0xE4, CHR 0xE5, CHR 0xE6, CHR 0xE7,
        CHR 0xE8, CHR 0xE9, CHR 0xEA, CHR 0xEB, CHR 0xEC, CHR 0xED, CHR 0xEE, CHR 0xEF,
        CHR 0xF0, CHR 0xF1, CHR 0xF2, CHR 0xF3, CHR 0xF4, CHR 0xF5, CHR 0xF6, CHR 0xF8,
        CHR 0xF9, CHR 0xFA, CHR 0xFB, CHR 0xFC, CHR 0xFD, CHR 0xFE]"

definition lower_char :: "char \<Rightarrow> char" where
  "lower_char c = (case map_of (zip upper_letters lower_letters) c of None \<Rightarrow> c | Some l \<Rightarrow> l)"

definition toLowerCase :: "string \<Rightarrow> string" where
  "toLowerCase s = map lower_char s"

definition is_space :: "char \<Rightarrow> bool" where
  "is_space c = ((of_char c :: nat) \<in> {9, 10, 11, 12, 13, 32, 160})"

definition trimStart :: "string \<Rightarrow> string" where
  "trimStart s = dropWhile is_space s"

definition trimEnd :: "string \<Rightarrow> string" where
  "trimEnd s = rev (dropWhile is_space (rev s))"

definition trim :: "string \<Rightarrow> string" where
  "trim s = trimEnd (trimStart s)"

definition nl :: string where
  "nl = [CHR 0x0A]"

definition dquote :: string where
  "dquote = [CHR 0x22]"

fun join_strings :: "string \<Rightarrow> string list \<Rightarrow> string" where
  "join_strings sep [] = []"
| "join_strings sep [s] = s"
| "join_strings sep (s # t # ts) = s @ sep @ join_strings sep (t # ts)"

subsection \<open>The store\<close>

text \<open>
  \<^verbatim>\<open>interface Note\<close>. The fields hold whatever the request carried. The two time stamps are
  kept as the instants (milliseconds since the epoch) that \<^verbatim>\<open>toISOString\<close> renders.
\<close>

record Note =
  note_id :: string
  title :: jv
  content :: jv
  tags :: jv
  createdAt :: int
  updatedAt :: int

text \<open>
  A \<^verbatim>\<open>Map\<close> iterates in insertion order, \<^verbatim>\<open>set\<close> on a present key replaces the value in
  place, and every key this program inserts is a string: an association list.
\<close>

type_synonym notes_map = "(string \<times> Note) list"

definition map_get :: "notes_map \<Rightarrow> jv \<Rightarrow> Note option" where
  "map_get notes k = (case k of JStr s \<Rightarrow> map_of notes s | _ \<Rightarrow> None)"

definition map_has :: "notes_map \<Rightarrow> jv \<Rightarrow> bool" where
  "map_has notes k = (map_get notes k \<noteq> None)"

definition map_set :: "string \<Rightarrow> Note \<Rightarrow> notes_map \<Rightarrow> notes_map" where
  "map_set k v notes = AList.update k v notes"

definition map_delete :: "jv \<Rightarrow> notes_map \<Rightarrow> notes_map" where
  "map_delete k notes = (case k of JStr s \<Rightarrow> AList.delete s notes | _ \<Rightarrow> notes)"

definition map_values :: "notes_map \<Rightarrow> Note list" where
  "map_values notes = map snd notes"

subsection \<open>Requests and responses\<close>

text \<open>\<^verbatim>\<open>request.params.arguments\<close>: absent, or an object, whose keys are distinct once it
  is parsed. \<^verbatim>\<open>args?.k\<close> is undefined when the bag or the key is absent.\<close>

type_synonym arguments = "(string \<times> jv) list option"

definition arg :: "arguments \<Rightarrow> string \<Rightarrow> jv" where
  "arg args k =
     (case args of
        None \<Rightarrow> JUndef
      | Some kvs \<Rightarrow> (case map_of kvs k of None \<Rightarrow> JUndef | Some v \<Rightarrow> v))"

text \<open>The text of a content item: a string built by the handler, or the result of
  \<^verbatim>\<open>JSON.stringify(v, null, 2)\<close>, kept as the value that is serialised.\<close>

datatype payload =
    Text string
  | Stringify_note Note
  | Stringify_notes "Note list"

text \<open>The result of a tool call: the texts of its content items (all of type text) and the
  \<^verbatim>\<open>isError\<close> flag, false when the field is absent.\<close>

record call_result =
  result_content :: "payload list"
  isError :: bool

record resource_content =
  uri :: string
  mimeType :: string
  resource_text :: payload

record prompt_message =
  role :: string
  message_text :: string

text \<open>\<open>clock k\<close> is the \<open>k\<close>-th reading of the system clock, in milliseconds, taken
  while the request is handled.\<close>

type_synonym clock = "nat \<Rightarrow> int"

subsection \<open>The tool handler\<close>

text \<open>\<^verbatim>\<open>throw new Error(`Note with ID ${id} not found`)\<close>; the template literal is
  evaluated first and may itself throw.\<close>

definition throw_not_found :: "jv \<Rightarrow> js_error + 'a" where
  "throw_not_found idv =
     bindE (ToString idv) (\<lambda>s. Inl (Error (''Note with ID '' @ s @ '' not found'')))"

text \<open>\<^verbatim>\<open>Array.prototype.filter\<close> with a callback that may throw: the first throw ends it.\<close>

fun filter_js :: "('a \<Rightarrow> js_error + bool) \<Rightarrow> 'a list \<Rightarrow> js_error + 'a list" where
  "filter_js p [] = Inr []"
| "filter_js p (x # xs) =
     (case p x of
        Inl e \<Rightarrow> Inl e
      | Inr b \<Rightarrow>
          (case filter_js p xs of
             Inl e \<Rightarrow> Inl e
           | Inr ys \<Rightarrow> Inr (if b then x # ys else ys)))"

fun map_js :: "('a \<Rightarrow> js_error + 'b) \<Rightarrow> 'a list \<Rightarrow> js_error + 'b list" where
  "map_js f [] = Inr []"
| "map_js f (x # xs) =
     (case f x of
        Inl e \<Rightarrow> Inl e
      | Inr y \<Rightarrow> (case map_js f xs of Inl e \<Rightarrow> Inl e | Inr ys \<Rightarrow> Inr (y # ys)))"

text \<open>
  \<^verbatim>\<open>note.tags.includes(tag)\<close>. On an array it compares the elements with the tag; on a
  string it is \<^verbatim>\<open>String.prototype.includes\<close>, which converts the tag to a string; no other
  value has a callable \<^verbatim>\<open>includes\<close>. The messages of the errors that the engine raises
  follow V8's wording; no property below depends on them.
\<close>

fun tags_includes :: "jv \<Rightarrow> jv \<Rightarrow> js_error + bool" where
  "tags_includes (JArr xs) tag = Inr (list_ex (\<lambda>x. same_value_zero x tag) xs)"
| "tags_includes (JStr s) tag = bindE (ToString tag) (\<lambda>t. Inr (includes_str s t))"
| "tags_includes JUndef tag =
     Inl (TypeError ''Cannot read properties of undefined (reading 'includes')'')"
| "tags_includes JNull tag =
     Inl (TypeError ''Cannot read properties of null (reading 'includes')'')"
| "tags_includes v tag = Inl (TypeError ''note.tags.includes is not a function'')"

text \<open>\<^verbatim>\<open>v.toLowerCase()\<close> on a value cast to string.\<close>

fun toLowerCase_of :: "jv \<Rightarrow> js_error + string" where
  "toLowerCase_of (JStr s) = Inr (toLowerCase s)"
| "toLowerCase_of JUndef =
     Inl (TypeError ''Cannot read properties of undefined (reading 'toLowerCase')'')"
| "toLowerCase_of JNull =
     Inl (TypeError ''Cannot read properties of null (reading 'toLowerCase')'')"
| "toLowerCase_of v = Inl (TypeError ''toLowerCase is not a function'')"

definition create_note :: "clock \<Rightarrow> arguments \<Rightarrow> notes_map \<Rightarrow> js_error + payload \<times> notes_map" where
  "create_note clk args notes =
     (let idv = int_toString (clk 0);
          note = \<lparr> note_id = idv,
                   title = arg args ''title'',
                   content = arg args ''content'',
                   tags = (if truthy (arg args ''tags'') then arg args ''tags'' else JArr []),
                   createdAt = clk 1,
                   updatedAt = clk 2 \<rparr>
      in Inr (Text (''Note created successfully with ID: '' @ idv), map_set idv note notes))"

definition list_notes :: "arguments \<Rightarrow> notes_map \<Rightarrow> js_error + payload \<times> notes_map" where
  "list_notes args notes =
     (let tag = arg args ''tag'';
          filteredNotes = map_values notes
      in bindE (if truthy tag
                then filter_js (\<lambda>note. tags_includes (tags note) tag) filteredNotes
                else Inr filteredNotes)
           (\<lambda>filteredNotes. Inr (Stringify_notes filteredNotes, notes)))"

definition get_note :: "arguments \<Rightarrow> notes_map \<Rightarrow> js_error + payload \<times> notes_map" where
  "get_note args notes =
     (let idv = arg args ''id''
      in case map_get notes idv of
           None \<Rightarrow> throw_not_found idv
         | Some note \<Rightarrow> Inr (Stringify_note note, notes))"

text \<open>The note object is changed in place, so the final \<^verbatim>\<open>notes.set(id, note)\<close> stores
  it at the position it already has. A key that is found is a string.\<close>

definition update_note :: "clock \<Rightarrow> arguments \<Rightarrow> notes_map \<Rightarrow> js_error + payload \<times> notes_map" where
  "update_note clk args notes =
     (let idv = arg args ''id''
      in case map_get notes idv of
           None \<Rightarrow> throw_not_found idv
         | Some note \<Rightarrow>
             (let note = (if truthy (arg args ''title'')
                          then note\<lparr>title := arg args ''title''\<rparr> else note);
                  note = (if truthy (arg args ''content'')
                          then note\<lparr>content := arg args ''content''\<rparr> else note);
                  note = (if truthy (arg args ''tags'')
                          then note\<lparr>tags := arg args ''tags''\<rparr> else note);
                  note = note\<lparr>updatedAt := clk 0\<rparr>
              in bindE (ToString idv) (\<lambda>s.
                   Inr (Text (''Note '' @ s @ '' updated successfully''), map_set s note notes))))"

definition delete_note :: "arguments \<Rightarrow> notes_map \<Rightarrow> js_error + payload \<times> notes_map" where
  "delete_note args notes =
     (let idv = arg args ''id''
      in if \<not> map_has notes idv then throw_not_found idv
         else bindE (ToString idv) (\<lambda>s.
                Inr (Text (''Note '' @ s @ '' deleted successfully''), map_delete idv notes)))"

definition search_match :: "string \<Rightarrow> Note \<Rightarrow> js_error + bool" where
  "search_match query note =
     bindE (toLowerCase_of (title note)) (\<lambda>t.
       if includes_str t query then Inr True
       else bindE (toLowerCase_of (content note)) (\<lambda>c. Inr (includes_str c query)))"

definition search_notes :: "arguments \<Rightarrow> notes_map \<Rightarrow> js_error + payload \<times> notes_map" where
  "search_notes args notes =
     bindE (toLowerCase_of (arg args ''query'')) (\<lambda>query.
       bindE (filter_js (search_match query) (map_values notes)) (\<lambda>results.
         Inr (Stringify_notes results, notes)))"

text \<open>The \<^verbatim>\<open>switch (name)\<close> inside the \<^verbatim>\<open>try\<close> block.\<close>

definition tool_switch ::
  "string \<Rightarrow> arguments \<Rightarrow> clock \<Rightarrow> notes_map \<Rightarrow> js_error + payload \<times> notes_map" where
  "tool_switch name args clk notes =
     (if name = ''create_note'' then create_note clk args notes
      else if name = ''list_notes'' then list_notes args notes
      else if name = ''get_note'' then get_note args notes
      else if name = ''update_note'' then update_note clk args notes
      else if name = ''delete_note'' then delete_note args notes
      else if name = ''search_notes'' then search_notes args notes
      else Inl (Error (''Unknown tool: '' @ name)))"

text \<open>
  The handler registered for \<^verbatim>\<open>CallToolRequestSchema\<close>: the switch inside
  \<^verbatim>\<open>try\<close>/\<^verbatim>\<open>catch\<close>. Every \<^verbatim>\<open>throw\<close> of the switch happens before the map is changed,
  so the map after a caught error is the map before the call. A value the handler returns
  is \<open>Inr\<close>; \<open>Inl\<close> would be an error that leaves the handler.
\<close>

definition CallTool_handler ::
  "string \<Rightarrow> arguments \<Rightarrow> clock \<Rightarrow> notes_map \<Rightarrow> js_error + call_result \<times> notes_map" where
  "CallTool_handler name args clk notes =
     (case tool_switch name args clk notes of
        Inr (p, notes') \<Rightarrow> Inr (\<lparr> result_content = [p], isError = False \<rparr>, notes')
      | Inl error \<Rightarrow>
          Inr (\<lparr> result_content = [Text (''Error: '' @ message error)], isError = True \<rparr>,
               notes))"

subsection \<open>The resource handler\<close>

text \<open>\<^verbatim>\<open>allNotes.flatMap((note) => note.tags)\<close> splices the elements of a value that is an
  array and appends any other value as it is.\<close>

definition flatMap_tags :: "Note list \<Rightarrow> jv list" where
  "flatMap_tags allNotes =
     concat (map (\<lambda>note. case tags note of JArr xs \<Rightarrow> xs | v \<Rightarrow> [v]) allNotes)"

text \<open>\<^verbatim>\<open>new Set(xs)\<close> adds the elements in order; one that is the same value as a member is
  dropped. The members are listed in insertion order.\<close>

definition set_add :: "jv list \<Rightarrow> jv \<Rightarrow> jv list" where
  "set_add members x =
     (if list_ex (\<lambda>y. same_value_zero y x) members then members else members @ [x])"

definition new_Set :: "jv list \<Rightarrow> jv list" where
  "new_Set xs = foldl set_add [] xs"

definition summary_text :: "nat \<Rightarrow> nat \<Rightarrow> string \<Rightarrow> string" where
  "summary_text totalNotes uniqueTags joined =
     trim (nl @ ''Notes Summary'' @ nl @ ''============='' @ nl
           @ ''Total notes: '' @ nat_toString totalNotes @ nl
           @ ''Unique tags: '' @ nat_toString uniqueTags @ nl
           @ ''Tags: '' @ (if joined \<noteq> [] then joined else ''none'') @ nl
           @ ''      '')"

text \<open>The handler registered for \<^verbatim>\<open>ReadResourceRequestSchema\<close>. Nothing catches what it
  throws.\<close>

definition ReadResource_handler :: "string \<Rightarrow> notes_map \<Rightarrow> js_error + resource_content list" where
  "ReadResource_handler u notes =
     (if u = ''notes://all''
      then Inr [\<lparr> uri = u, mimeType = ''application/json'',
                  resource_text = Stringify_notes (map_values notes) \<rparr>]
      else if u = ''notes://summary''
      then (let allNotes = map_values notes;
                totalNotes = length allNotes;
                allTags = new_Set (flatMap_tags allNotes)
            in bindE (join '', '' allTags) (\<lambda>joined.
                 Inr [\<lparr> uri = u, mimeType = ''text/plain'',
                         resource_text =
                           Text (summary_text totalNotes (length allTags) joined) \<rparr>]))
      else Inl (Error (''Unknown resource: '' @ u)))"

subsection \<open>The prompt handler\<close>

text \<open>\<^verbatim>\<open>note.tags.join(', ')\<close>: only an array has a callable \<^verbatim>\<open>join\<close>.\<close>

fun tags_join :: "jv \<Rightarrow> js_error + string" where
  "tags_join (JArr xs) = join '', '' xs"
| "tags_join JUndef = Inl (TypeError ''Cannot read properties of undefined (reading 'join')'')"
| "tags_join JNull = Inl (TypeError ''Cannot read properties of null (reading 'join')'')"
| "tags_join v = Inl (TypeError ''note.tags.join is not a function'')"

definition summarize_line :: "Note \<Rightarrow> js_error + string" where
  "summarize_line note =
     bindE (ToString (title note)) (\<lambda>t.
       bindE (ToString (content note)) (\<lambda>c. Inr (''- '' @ t @ '': '' @ c)))"

definition organize_block :: "Note \<Rightarrow> js_error + string" where
  "organize_block note =
     bindE (ToString (title note)) (\<lambda>t.
       bindE (ToString (content note)) (\<lambda>c.
         bindE (tags_join (tags note)) (\<lambda>g.
           Inr (''ID: '' @ note_id note @ nl @ ''Title: '' @ t @ nl
                @ ''Content: '' @ c @ nl @ ''Tags: '' @ g @ nl))))"

text \<open>The handler registered for \<^verbatim>\<open>GetPromptRequestSchema\<close>. Nothing catches what it
  throws.\<close>

definition GetPrompt_handler ::
  "string \<Rightarrow> arguments \<Rightarrow> notes_map \<Rightarrow> js_error + prompt_message list" where
  "GetPrompt_handler name args notes =
     (if name = ''summarize_notes''
      then (let tag = arg args ''tag'';
                filteredNotes = map_values notes
            in bindE (if truthy tag
                      then filter_js (\<lambda>note. tags_includes (tags note) tag) filteredNotes
                      else Inr filteredNotes) (\<lambda>filteredNotes.
               bindE (map_js summarize_line filteredNotes) (\<lambda>lines.
               bindE (if truthy tag
                      then bindE (ToString tag) (\<lambda>t.
                             Inr ('' tagged with '' @ dquote @ t @ dquote))
                      else Inr '''') (\<lambda>tagged.
                 Inr [\<lparr> role = ''user'',
                         message_text = ''Please summarize the following notes'' @ tagged
                           @ '':'' @ nl @ nl @ join_strings nl lines \<rparr>]))))
      else if name = ''organize_notes''
      then bindE (map_js organize_block (map_values notes)) (\<lambda>blocks.
             Inr [\<lparr> role = ''user'',
                     message_text = ''Here are all my notes:'' @ nl @ nl
                       @ join_strings (nl @ ''---'' @ nl) blocks @ nl @ nl
                       @ ''Please suggest:'' @ nl
                       @ ''1. Better tags for organization'' @ nl
                       @ ''2. Notes that could be merged'' @ nl
                       @ ''3. Missing categories or topics'' \<rparr>])
      else Inl (Error (''Unknown prompt: '' @ name)))"

section \<open>What the properties are stated with\<close>

text \<open>
  Nothing in this section is part of the server: these are the shapes that the Note type
  and the announced tool schemas declare, the notions of matching that the properties
  compare the handlers with, and example stores.
\<close>

text \<open>A clock that reads the same millisecond every time it is read.\<close>

definition fixed_clock :: "int \<Rightarrow> clock" where
  "fixed_clock t k = t"

text \<open>
  \<^verbatim>\<open>interface Note\<close> declares \<^verbatim>\<open>title: string\<close>, \<^verbatim>\<open>content: string\<close> and
  \<^verbatim>\<open>tags: string[]\<close>. The predicates below say that a stored value has the declared shape.
\<close>

fun is_string :: "jv \<Rightarrow> bool" where
  "is_string (JStr s) = True"
| "is_string v = False"

fun the_string :: "jv \<Rightarrow> string" where
  "the_string (JStr s) = s"
| "the_string v = []"

fun is_array :: "jv \<Rightarrow> bool" where
  "is_array (JArr xs) = True"
| "is_array v = False"

fun elements :: "jv \<Rightarrow> jv list" where
  "elements (JArr xs) = xs"
| "elements v = []"

definition string_array :: "jv \<Rightarrow> bool" where
  "string_array v = (is_array v \<and> list_all is_string (elements v))"

text \<open>Stores whose Notes have the declared shape in the fields a handler reads.\<close>

definition array_tags :: "notes_map \<Rightarrow> bool" where
  "array_tags notes = list_all (\<lambda>n. is_array (tags n)) (map_values notes)"

definition string_tags :: "notes_map \<Rightarrow> bool" where
  "string_tags notes = list_all (\<lambda>n. string_array (tags n)) (map_values notes)"

definition string_fields :: "notes_map \<Rightarrow> bool" where
  "string_fields notes =
     list_all (\<lambda>n. is_string (title n) \<and> is_string (content n)) (map_values notes)"

text \<open>
  The input schemas the server announces for its tools (\<^verbatim>\<open>ListToolsRequestSchema\<close>): the
  required arguments and the declared types. The tool handler does not check them.
\<close>

definition opt_string :: "jv \<Rightarrow> bool" where
  "opt_string v = (v = JUndef \<or> is_string v)"

definition opt_string_array :: "jv \<Rightarrow> bool" where
  "opt_string_array v = (v = JUndef \<or> string_array v)"

definition inputSchema :: "string \<Rightarrow> arguments \<Rightarrow> bool" where
  "inputSchema name args =
     (if name = ''create_note''
      then is_string (arg args ''title'') \<and> is_string (arg args ''content'')
           \<and> opt_string_array (arg args ''tags'')
      else if name = ''list_notes'' then opt_string (arg args ''tag'')
      else if name = ''get_note'' then is_string (arg args ''id'')
      else if name = ''update_note''
      then is_string (arg args ''id'') \<and> opt_string (arg args ''title'')
           \<and> opt_string (arg args ''content'') \<and> opt_string_array (arg args ''tags'')
      else if name = ''delete_note'' then is_string (arg args ''id'')
      else if name = ''search_notes'' then is_string (arg args ''query'')
      else True)"

definition typed_note :: "Note \<Rightarrow> bool" where
  "typed_note n = (is_string (title n) \<and> is_string (content n) \<and> string_array (tags n))"

definition typed_store :: "notes_map \<Rightarrow> bool" where
  "typed_store notes = (string_fields notes \<and> string_tags notes)"

text \<open>A Note carries the tag \<open>T\<close>: one of its tags is exactly that string.\<close>

definition has_tag :: "string \<Rightarrow> Note \<Rightarrow> bool" where
  "has_tag T n = (JStr T \<in> set (elements (tags n)))"





text \<open>All tag strings of the stored Notes, in storage order, and the distinct values among
  them, each at its first occurrence.\<close>

definition all_tags :: "notes_map \<Rightarrow> string list" where
  "all_tags notes = concat (map (\<lambda>n. map the_string (elements (tags n))) (map_values notes))"

definition first_occurrences :: "string list \<Rightarrow> string list" where
  "first_occurrences xs = rev (remdups (rev xs))"

text \<open>Example Notes and stores.\<close>

definition note_A :: Note where
  "note_A = \<lparr> note_id = ''1000'', title = JStr ''A'', content = JStr ''x'',
              tags = JArr [JStr ''t1''], createdAt = 1000, updatedAt = 1000 \<rparr>"

definition note_B :: Note where
  "note_B = \<lparr> note_id = ''1001'', title = JStr ''B'', content = JStr ''y'',
              tags = JArr [JStr ''t2''], createdAt = 1001, updatedAt = 1001 \<rparr>"

definition two_notes :: notes_map where
  "two_notes = [(''1000'', note_A), (''1001'', note_B)]"

definition note_W1 :: Note where
  "note_W1 = \<lparr> note_id = ''2001'', title = JStr ''Standup'', content = JStr ''daily'',
               tags = JArr [JStr ''work''], createdAt = 2001, updatedAt = 2001 \<rparr>"

definition note_W2 :: Note where
  "note_W2 = \<lparr> note_id = ''2002'', title = JStr ''Review'', content = JStr ''budget'',
               tags = JArr [JStr ''work''], createdAt = 2002, updatedAt = 2002 \<rparr>"

definition note_P :: Note where
  "note_P = \<lparr> note_id = ''2003'', title = JStr ''Gym'', content = JStr ''monday'',
              tags = JArr [JStr ''personal''], createdAt = 2003, updatedAt = 2003 \<rparr>"

definition three_notes :: notes_map where
  "three_notes = [(''2001'', note_W1), (''2002'', note_W2), (''2003'', note_P)]"

definition note_E :: Note where
  "note_E = \<lparr> note_id = ''3000'', title = JStr ''A'', content = JStr ''x'',
              tags = JArr [JStr ''''], createdAt = 3000, updatedAt = 3000 \<rparr>"





text \<open>The text of the summary view, for a Note count, a tag count and the text of the
  last line after its label.\<close>

definition summary_block :: "nat \<Rightarrow> nat \<Rightarrow> string \<Rightarrow> string" where
  "summary_block noteCount tagCount line =
     ''Notes Summary'' @ nl @ ''============='' @ nl
     @ ''Total notes: '' @ nat_toString noteCount @ nl
     @ ''Unique tags: '' @ nat_toString tagCount @ nl
     @ ''Tags:'' @ line"

section \<open>Properties\<close>

subsection \<open>Basic facts\<close>

lemma bindE_simps [simp]:
  "bindE (Inl e) f = Inl e"
  "bindE (Inr x) f = f x"
  by (simp_all add: bindE_def)

lemma map_get_JStr [simp]: "map_get notes (JStr s) = map_of notes s"
  by (simp add: map_get_def)

lemma map_of_map_set [simp]:
  "map_of (map_set k v notes) k' = (if k' = k then Some v else map_of notes k')"
  by (simp add: map_set_def update_conv')

lemma throw_not_found_isl: "\<exists>e. throw_not_found idv = Inl e"
  by (cases "ToString idv") (simp_all add: throw_not_found_def)

lemma throw_not_found_not_Inr [simp]: "throw_not_found idv \<noteq> Inr x"
  by (cases "ToString idv") (simp_all add: throw_not_found_def)

lemma CallTool_handler_caught:
  "tool_switch name args clk notes = Inl e \<Longrightarrow>
   CallTool_handler name args clk notes =
     Inr (\<lparr> result_content = [Text (''Error: '' @ message e)], isError = True \<rparr>, notes)"
  by (simp add: CallTool_handler_def)

lemma CallTool_handler_returned:
  "tool_switch name args clk notes = Inr (p, notes') \<Longrightarrow>
   CallTool_handler name args clk notes =
     Inr (\<lparr> result_content = [p], isError = False \<rparr>, notes')"
  by (simp add: CallTool_handler_def)

lemma tool_switch_absent_id:
  assumes "name \<in> {''get_note'', ''update_note'', ''delete_note''}"
    and "map_get notes (arg args ''id'') = None"
  shows "tool_switch name args clk notes = throw_not_found (arg args ''id'')"
  using assms
  by (auto simp: tool_switch_def get_note_def update_note_def delete_note_def map_has_def)

subsection \<open>Decimal rendering\<close>

lemma digit_char_inj:
  assumes "a < 10" and "b < 10" and "digit_char a = digit_char b"
  shows "a = b"
proof -
  have "distinct ''0123456789''" and "length ''0123456789'' = 10"
    by simp_all
  then show ?thesis
    using assms nth_eq_iff_index_eq [of "''0123456789''" a b]
    by (simp add: digit_char_def)
qed

lemma nat_toString_nonempty: "nat_toString n \<noteq> []"
  by (subst nat_toString.simps) simp

lemma nat_toString_inj: "nat_toString n = nat_toString m \<Longrightarrow> n = m"
proof (induction n arbitrary: m rule: nat_toString.induct)
  case (1 n)
  show ?case
  proof (cases "n < 10")
    case True
    then have n: "nat_toString n = [digit_char n]"
      by (subst nat_toString.simps) simp
    show ?thesis
    proof (cases "m < 10")
      case True
      then have "nat_toString m = [digit_char m]"
        by (subst nat_toString.simps) simp
      with n "1.prems" show ?thesis
        using digit_char_inj [OF \<open>n < 10\<close> \<open>m < 10\<close>] by simp
    next
      case False
      then have "nat_toString m = nat_toString (m div 10) @ [digit_char (m mod 10)]"
        by (subst nat_toString.simps) simp
      with n "1.prems" show ?thesis
        using nat_toString_nonempty [of "m div 10"] by simp
    qed
  next
    case False
    then have n: "nat_toString n = nat_toString (n div 10) @ [digit_char (n mod 10)]"
      by (subst nat_toString.simps) simp
    show ?thesis
    proof (cases "m < 10")
      case True
      then have "nat_toString m = [digit_char m]"
        by (subst nat_toString.simps) simp
      with n "1.prems" show ?thesis
        using nat_toString_nonempty [of "n div 10"] by simp
    next
      case m: False
      then have "nat_toString m = nat_toString (m div 10) @ [digit_char (m mod 10)]"
        by (subst nat_toString.simps) simp
      with n "1.prems" have "nat_toString (n div 10) = nat_toString (m div 10)"
        and d: "digit_char (n mod 10) = digit_char (m mod 10)"
        by simp_all
      then have "n div 10 = m div 10"
        using "1.IH" [OF False] by simp
      moreover have "n mod 10 = m mod 10"
        using digit_char_inj [OF _ _ d] by simp
      ultimately show ?thesis
        by (metis div_mult_mod_eq)
    qed
  qed
qed

lemma nat_toString_no_minus: "CHR ''-'' \<notin> set (nat_toString n)"
proof (induction n rule: nat_toString.induct)
  case (1 n)
  have "digit_char d \<noteq> CHR ''-''" if "d < 10" for d
  proof -
    have "digit_char d \<in> set ''0123456789''"
      using that by (simp only: digit_char_def) (rule nth_mem, simp)
    then show ?thesis by auto
  qed
  note digit = this
  show ?case
  proof (cases "n < 10")
    case True
    then have "nat_toString n = [digit_char n]"
      by (subst nat_toString.simps) simp
    with digit [OF True] show ?thesis
      by auto
  next
    case False
    then have "nat_toString n = nat_toString (n div 10) @ [digit_char (n mod 10)]"
      by (subst nat_toString.simps) simp
    moreover have "digit_char (n mod 10) \<noteq> CHR ''-''"
      by (rule digit) simp
    ultimately show ?thesis
      using "1.IH" [OF False] by auto
  qed
qed

lemma int_toString_inj: "int_toString a = int_toString b \<Longrightarrow> a = b"
proof -
  assume eq: "int_toString a = int_toString b"
  have neg: "hd (int_toString i) = CHR ''-''" if "i < 0" for i
    using that by (simp add: int_toString_def)
  have pos: "hd (int_toString i) \<noteq> CHR ''-''" if "\<not> i < 0" for i
    using that nat_toString_no_minus [of "nat i"] nat_toString_nonempty [of "nat i"]
    by (cases "nat_toString (nat i)") (auto simp: int_toString_def)
  show "a = b"
  proof (cases "a < 0")
    case True
    then have "b < 0"
      using eq neg [of a] pos [of b] by auto
    with True eq have "nat (- a) = nat (- b)"
      by (auto simp: int_toString_def dest: nat_toString_inj)
    with True \<open>b < 0\<close> show ?thesis by simp
  next
    case False
    then have "\<not> b < 0"
      using eq neg [of b] pos [of a] by auto
    with False eq have "nat a = nat b"
      by (auto simp: int_toString_def dest: nat_toString_inj)
    with False \<open>\<not> b < 0\<close> show ?thesis by simp
  qed
qed

subsection \<open>Typed stores\<close>

lemma typed_store_iff: "typed_store notes = list_all typed_note (map_values notes)"
  by (auto simp: typed_store_def string_fields_def string_tags_def typed_note_def list_all_iff)

lemma typed_map_set:
  "typed_note n \<Longrightarrow> typed_store al \<Longrightarrow> typed_store (map_set k n al)"
  unfolding typed_store_iff map_values_def map_set_def
  by (induction al) auto

lemma typed_map_delete: "typed_store notes \<Longrightarrow> typed_store (map_delete k notes)"
  unfolding typed_store_iff map_values_def map_delete_def
  by (cases k) (auto simp: list_all_iff AList.delete_eq)

lemma typed_map_of: "typed_store notes \<Longrightarrow> map_of notes i = Some n \<Longrightarrow> typed_note n"
  unfolding typed_store_iff map_values_def
  by (force simp: list_all_iff dest: map_of_SomeD)

lemma string_array_Nil [simp]: "string_array (JArr [])"
  by (simp add: string_array_def)

lemma typed_store_shapes:
  "typed_store notes \<Longrightarrow> string_fields notes \<and> string_tags notes \<and> array_tags notes"
  by (auto simp: typed_store_def string_tags_def array_tags_def string_array_def list_all_iff)

text \<open>
  The empty store is typed, and a tool call whose arguments satisfy the announced schema
  leaves a typed store typed. So the stores reached by such calls are the typed ones.
\<close>

lemma typed_store_empty: "typed_store []"
  by (simp add: typed_store_iff map_values_def)

lemma typed_store_preserved:
  assumes "inputSchema name args" and "typed_store notes"
    and "CallTool_handler name args clk notes = Inr (r, notes')"
  shows "typed_store notes'"
proof (cases "tool_switch name args clk notes")
  case (Inl e)
  then show ?thesis
    using assms(2,3) by (simp add: CallTool_handler_def)
next
  case (Inr a)
  then obtain p where sw: "tool_switch name args clk notes = Inr (p, notes')"
    using assms(3) by (cases a) (simp add: CallTool_handler_def)
  consider "name = ''create_note''" | "name = ''update_note''" | "name = ''delete_note''"
    | "name \<notin> {''create_note'', ''update_note'', ''delete_note''}"
    by auto
  then show ?thesis
  proof cases
    case 1
    have "typed_note \<lparr> note_id = int_toString (clk 0), title = arg args ''title'',
              content = arg args ''content'',
              tags = (if truthy (arg args ''tags'') then arg args ''tags'' else JArr []),
              createdAt = clk 1, updatedAt = clk 2 \<rparr>"
      using assms(1) 1
      by (auto simp: inputSchema_def typed_note_def opt_string_array_def)
    then show ?thesis
      using sw 1 assms(2)
      by (auto simp: tool_switch_def create_note_def Let_def intro: typed_map_set)
  next
    case 2
    obtain i where i: "arg args ''id'' = JStr i"
      using assms(1) 2 by (cases "arg args ''id''") (simp_all add: inputSchema_def)
    obtain n where n: "map_of notes i = Some n"
      using sw 2 i
      by (cases "map_of notes i") (auto simp: tool_switch_def update_note_def)
    have tn: "typed_note n"
      by (rule typed_map_of [OF assms(2) n])
    have "typed_note (n\<lparr> title := if truthy (arg args ''title'') then arg args ''title'' else title n,
                      content := if truthy (arg args ''content'') then arg args ''content''
                                 else content n,
                      tags := if truthy (arg args ''tags'') then arg args ''tags'' else tags n,
                      updatedAt := clk 0 \<rparr>)"
      using assms(1) 2 tn
      by (auto simp: inputSchema_def typed_note_def opt_string_array_def opt_string_def)
    then show ?thesis
      using sw 2 i n assms(2)
      by (auto simp: tool_switch_def update_note_def Let_def intro!: typed_map_set split: if_splits)
  next
    case 3
    then show ?thesis
      using sw assms(2)
      by (auto simp: tool_switch_def delete_note_def Let_def bindE_def
          intro: typed_map_delete split: if_splits sum.splits)
  next
    case 4
    then show ?thesis
      using sw assms(2)
      by (auto simp: tool_switch_def list_notes_def get_note_def search_notes_def Let_def
          bindE_def split: if_splits sum.splits option.splits)
  qed
qed

subsection \<open>Unknown names\<close>

text \<open>
  Claim C8. A tool call that names no tool of the server is answered with a normal result
  whose \<^verbatim>\<open>isError\<close> flag is set and whose text carries the requested name, and the store
  is left as it was. A resource read with an unknown address and a prompt request with an
  unknown name throw out of their handlers instead: no result is returned.
\<close>

theorem unknown_name_split:
  assumes "name \<notin> {''create_note'', ''list_notes'', ''get_note'', ''update_note'',
                     ''delete_note'', ''search_notes''}"
    and "u \<notin> {''notes://all'', ''notes://summary''}"
    and "pname \<notin> {''summarize_notes'', ''organize_notes''}"
  shows "CallTool_handler name args clk notes =
           Inr (\<lparr> result_content = [Text (''Error: Unknown tool: '' @ name)], isError = True \<rparr>,
                notes)
       \<and> ReadResource_handler u notes = Inl (Error (''Unknown resource: '' @ u))
       \<and> GetPrompt_handler pname pargs notes = Inl (Error (''Unknown prompt: '' @ pname))"
  using assms
  by (simp add: CallTool_handler_def tool_switch_def ReadResource_handler_def GetPrompt_handler_def)

theorem unknown_name_split_witness:
  "CallTool_handler ''create_notes'' None (fixed_clock 0) [] =
     Inr (\<lparr> result_content = [Text ''Error: Unknown tool: create_notes''], isError = True \<rparr>, [])
   \<and> ReadResource_handler ''notes://bogus'' [] = Inl (Error ''Unknown resource: notes://bogus'')
   \<and> GetPrompt_handler ''summarize'' None [] = Inl (Error ''Unknown prompt: summarize'')"
  using unknown_name_split [of "''create_notes''" "''notes://bogus''" "''summarize''" None
      "fixed_clock 0" "[]" None]
  by simp

subsection \<open>The tool handler always returns\<close>

text \<open>
  Claim C9. For every tool name, argument bag, clock and store the tool handler returns a
  result; nothing is thrown out of it. Whatever the switch throws is returned as the text
  \<^verbatim>\<open>Error: \<close> followed by the message, with \<^verbatim>\<open>isError\<close> set and the store unchanged. In
  particular an id that names no stored Note, given to get, update or delete, yields the
  not-found text with the flag set.
\<close>

theorem CallTool_handler_total:
  "\<exists>r notes'. CallTool_handler name args clk notes = Inr (r, notes')
     \<and> (\<forall>e. tool_switch name args clk notes = Inl e \<longrightarrow>
           r = \<lparr> result_content = [Text (''Error: '' @ message e)], isError = True \<rparr>
           \<and> notes' = notes)
     \<and> (name \<in> {''get_note'', ''update_note'', ''delete_note''}
          \<and> map_get notes (arg args ''id'') = None \<longrightarrow>
           isError r \<and> notes' = notes
           \<and> (\<forall>s. ToString (arg args ''id'') = Inr s \<longrightarrow>
                 result_content r = [Text (''Error: Note with ID '' @ s @ '' not found'')]))"
proof (cases "tool_switch name args clk notes")
  case (Inl e)
  let ?r = "\<lparr> result_content = [Text (''Error: '' @ message e)], isError = True \<rparr>"
  have handler: "CallTool_handler name args clk notes = Inr (?r, notes)"
    by (rule CallTool_handler_caught [OF Inl])
  have absent: "result_content ?r = [Text (''Error: Note with ID '' @ s @ '' not found'')]"
    if "name \<in> {''get_note'', ''update_note'', ''delete_note''}"
      and "map_get notes (arg args ''id'') = None"
      and "ToString (arg args ''id'') = Inr s" for s
  proof -
    have "throw_not_found (arg args ''id'') = (Inl e :: js_error + payload \<times> notes_map)"
      using tool_switch_absent_id [OF that(1,2), of clk] Inl by simp
    then have "message e = ''Note with ID '' @ s @ '' not found''"
      using that(3) by (auto simp: throw_not_found_def)
    then show ?thesis by simp
  qed
  show ?thesis
    apply (rule exI [of _ ?r], rule exI [of _ "notes"])
    using handler Inl absent by auto
next
  case (Inr a)
  obtain p notes' where a: "a = (p, notes')"
    by (cases a)
  have "\<not> (name \<in> {''get_note'', ''update_note'', ''delete_note''}
            \<and> map_get notes (arg args ''id'') = None)"
    using Inr tool_switch_absent_id [of name "notes" args clk]
      throw_not_found_isl [of "arg args ''id''", where ?'a = "payload \<times> notes_map"]
    by auto
  then show ?thesis
    using CallTool_handler_returned [of name args clk "notes" p notes'] Inr a
    by auto
qed

theorem CallTool_handler_total_witness:
  "\<exists>r. CallTool_handler ''get_note'' (Some [(''id'', JStr ''42'')]) (fixed_clock 0) [] = Inr (r, [])
     \<and> isError r \<and> result_content r = [Text ''Error: Note with ID 42 not found'']"
  using CallTool_handler_total [of "''get_note''" "Some [(''id'', JStr ''42'')]" "fixed_clock 0" "[]"]
  by (auto simp: arg_def)

subsection \<open>Creating\<close>

lemma tool_switch_create:
  "tool_switch ''create_note'' args clk notes =
     Inr (Text (''Note created successfully with ID: '' @ int_toString (clk 0)),
          map_set (int_toString (clk 0))
            \<lparr> note_id = int_toString (clk 0), title = arg args ''title'',
              content = arg args ''content'',
              tags = (if truthy (arg args ''tags'') then arg args ''tags'' else JArr []),
              createdAt = clk 1, updatedAt = clk 2 \<rparr> notes)"
  by (simp add: tool_switch_def create_note_def Let_def)

lemma tool_switch_get_present:
  assumes "arg args ''id'' = JStr i" and "map_of notes i = Some n"
  shows "tool_switch ''get_note'' args clk notes = Inr (Stringify_note n, notes)"
  using assms by (simp add: tool_switch_def get_note_def)

text \<open>
  Claim C3. When \<^verbatim>\<open>create_note\<close> is called with a string title, a string content and
  either no tags or an array of tags, it returns the text with the new id, and \<^verbatim>\<open>get_note\<close>
  with that id on the resulting store returns the serialised Note whose title and content
  are the given strings and whose tags are the given array, or the empty array when no tags
  were given. This holds for every store before the call and every clock.
\<close>

theorem create_then_get:
  assumes "arg args ''title'' = JStr t"
    and "arg args ''content'' = JStr c"
    and "arg args ''tags'' = (case given of None \<Rightarrow> JUndef | Some xs \<Rightarrow> JArr xs)"
    and "arg args' ''id'' = JStr (int_toString (clk 0))"
  shows "\<exists>notes' n.
           CallTool_handler ''create_note'' args clk notes =
             Inr (\<lparr> result_content =
                      [Text (''Note created successfully with ID: '' @ int_toString (clk 0))],
                    isError = False \<rparr>, notes')
         \<and> CallTool_handler ''get_note'' args' clk' notes' =
             Inr (\<lparr> result_content = [Stringify_note n], isError = False \<rparr>, notes')
         \<and> note_id n = int_toString (clk 0)
         \<and> title n = JStr t \<and> content n = JStr c
         \<and> tags n = JArr (case given of None \<Rightarrow> [] | Some xs \<Rightarrow> xs)"
proof -
  let ?i = "int_toString (clk 0)"
  let ?n = "\<lparr> note_id = ?i, title = arg args ''title'', content = arg args ''content'',
              tags = (if truthy (arg args ''tags'') then arg args ''tags'' else JArr []),
              createdAt = clk 1, updatedAt = clk 2 \<rparr>"
  let ?notes' = "map_set ?i ?n notes"
  have created: "CallTool_handler ''create_note'' args clk notes =
      Inr (\<lparr> result_content = [Text (''Note created successfully with ID: '' @ ?i)],
             isError = False \<rparr>, ?notes')"
    by (rule CallTool_handler_returned [OF tool_switch_create])
  have "map_of ?notes' ?i = Some ?n"
    by simp
  then have got: "CallTool_handler ''get_note'' args' clk' ?notes' =
      Inr (\<lparr> result_content = [Stringify_note ?n], isError = False \<rparr>, ?notes')"
    by (intro CallTool_handler_returned tool_switch_get_present [OF assms(4)])
  have "tags ?n = JArr (case given of None \<Rightarrow> [] | Some xs \<Rightarrow> xs)"
    using assms(3) by (simp split: option.splits)
  with created got assms(1,2) show ?thesis
    by (intro exI [of _ ?notes'] exI [of _ ?n]) simp
qed

theorem create_then_get_witness:
  "\<exists>notes' n.
     CallTool_handler ''create_note'' (Some [(''title'', JStr ''B''), (''content'', JStr ''y'')])
         (fixed_clock 1001) [(''1000'', note_A)] =
       Inr (\<lparr> result_content = [Text ''Note created successfully with ID: 1001''],
              isError = False \<rparr>, notes')
     \<and> CallTool_handler ''get_note'' (Some [(''id'', JStr ''1001'')]) (fixed_clock 1002) notes' =
       Inr (\<lparr> result_content = [Stringify_note n], isError = False \<rparr>, notes')
     \<and> note_id n = ''1001'' \<and> title n = JStr ''B'' \<and> content n = JStr ''y''
     \<and> tags n = JArr []"
  using create_then_get [of "Some [(''title'', JStr ''B''), (''content'', JStr ''y'')]"
      "''B''" "''y''" None "Some [(''id'', JStr ''1001'')]" "fixed_clock 1001"
      "[(''1000'', note_A)]" "fixed_clock 1002"]
  by (simp add: arg_def fixed_clock_def int_toString_def nat_toString.simps digit_char_def)

text \<open>
  Claim C10, as stated, fails: \<^verbatim>\<open>create_note\<close> called with the number 0 as tags succeeds,
  but the Note it stores has the empty array as tags, not the value given.
\<close>

theorem create_note_falsy_tags_counterexample:
  "CallTool_handler ''create_note''
       (Some [(''title'', JStr ''A''), (''content'', JStr ''x''), (''tags'', JNum 0)])
       (fixed_clock 1000) [] =
     Inr (\<lparr> result_content = [Text ''Note created successfully with ID: 1000''],
            isError = False \<rparr>,
          [(''1000'', \<lparr> note_id = ''1000'', title = JStr ''A'', content = JStr ''x'',
                       tags = JArr [], createdAt = 1000, updatedAt = 1000 \<rparr>)])
   \<and> JArr [] \<noteq> JNum 0"
  by (simp add: CallTool_handler_def tool_switch_def create_note_def arg_def fixed_clock_def
      int_toString_def nat_toString.simps digit_char_def map_set_def Let_def)

text \<open>
  Claim C10, amended. For every argument bag (absent, or with any values or none under
  title, content and tags), every clock and every store, \<^verbatim>\<open>create_note\<close> returns the success
  text with the new id and no error flag, and stores under that id a Note whose title and
  content are the values given (undefined when absent) and whose tags are the value given
  when that value is truthy, and the empty array otherwise.
\<close>

theorem create_note_always_succeeds:
  "CallTool_handler ''create_note'' args clk notes =
     Inr (\<lparr> result_content =
              [Text (''Note created successfully with ID: '' @ int_toString (clk 0))],
            isError = False \<rparr>,
          map_set (int_toString (clk 0))
            \<lparr> note_id = int_toString (clk 0), title = arg args ''title'',
              content = arg args ''content'',
              tags = (if truthy (arg args ''tags'') then arg args ''tags'' else JArr []),
              createdAt = clk 1, updatedAt = clk 2 \<rparr> notes)
   \<and> map_get (map_set (int_toString (clk 0))
            \<lparr> note_id = int_toString (clk 0), title = arg args ''title'',
              content = arg args ''content'',
              tags = (if truthy (arg args ''tags'') then arg args ''tags'' else JArr []),
              createdAt = clk 1, updatedAt = clk 2 \<rparr> notes) (JStr (int_toString (clk 0))) =
       Some \<lparr> note_id = int_toString (clk 0), title = arg args ''title'',
              content = arg args ''content'',
              tags = (if truthy (arg args ''tags'') then arg args ''tags'' else JArr []),
              createdAt = clk 1, updatedAt = clk 2 \<rparr>"
  using CallTool_handler_returned [OF tool_switch_create, of args clk "notes"]
  by simp

subsection \<open>Ids\<close>

lemmas handler_eval =
  CallTool_handler_def tool_switch_def create_note_def update_note_def arg_def fixed_clock_def
  int_toString_def nat_toString.simps digit_char_def map_set_def Let_def

text \<open>
  Claim C1 says that the ids returned by \<^verbatim>\<open>create_note\<close> are pairwise distinct. The id is
  the clock reading in milliseconds, so two calls handled within the same millisecond return
  the same id, and the second Note replaces the first in the store.
\<close>

theorem create_note_same_millisecond:
  "CallTool_handler ''create_note''
       (Some [(''title'', JStr ''A''), (''content'', JStr ''x''), (''tags'', JArr [JStr ''t1''])])
       (fixed_clock 1000) [] =
     Inr (\<lparr> result_content = [Text ''Note created successfully with ID: 1000''],
            isError = False \<rparr>, [(''1000'', note_A)])
   \<and> CallTool_handler ''create_note''
       (Some [(''title'', JStr ''B''), (''content'', JStr ''y'')])
       (fixed_clock 1000) [(''1000'', note_A)] =
     Inr (\<lparr> result_content = [Text ''Note created successfully with ID: 1000''],
            isError = False \<rparr>,
          [(''1000'', \<lparr> note_id = ''1000'', title = JStr ''B'', content = JStr ''y'',
                       tags = JArr [], createdAt = 1000, updatedAt = 1000 \<rparr>)])"
  by (simp add: handler_eval note_A_def)

text \<open>Two \<^verbatim>\<open>create_note\<close> calls whose first clock readings differ return different ids,
  and the second call leaves the Note of the first in the store.\<close>

lemma create_note_distinct_readings:
  assumes "clk 0 \<noteq> clk' 0"
  shows "\<exists>notes' notes''.
           CallTool_handler ''create_note'' args clk notes =
             Inr (\<lparr> result_content =
                      [Text (''Note created successfully with ID: '' @ int_toString (clk 0))],
                    isError = False \<rparr>, notes')
         \<and> CallTool_handler ''create_note'' args' clk' notes' =
             Inr (\<lparr> result_content =
                      [Text (''Note created successfully with ID: '' @ int_toString (clk' 0))],
                    isError = False \<rparr>, notes'')
         \<and> int_toString (clk 0) \<noteq> int_toString (clk' 0)
         \<and> map_of notes'' (int_toString (clk 0)) = map_of notes' (int_toString (clk 0))
         \<and> map_of notes' (int_toString (clk 0)) \<noteq> None"
proof -
  have "int_toString (clk 0) \<noteq> int_toString (clk' 0)"
    using assms int_toString_inj by blast
  then show ?thesis
    using CallTool_handler_returned [OF tool_switch_create, of args clk "notes"]
      CallTool_handler_returned [OF tool_switch_create, of args' clk']
    by simp
qed

subsection \<open>Updating\<close>

text \<open>What \<^verbatim>\<open>update_note\<close> does to a stored Note: each of title, content and tags is
  replaced when the argument is truthy, and the update time is set.\<close>

lemma update_note_truthy_fields:
  assumes "arg args ''id'' = JStr i" and "map_of notes i = Some n"
  shows "CallTool_handler ''update_note'' args clk notes =
           Inr (\<lparr> result_content = [Text (''Note '' @ i @ '' updated successfully'')],
                  isError = False \<rparr>,
                map_set i
                  (n\<lparr> title := if truthy (arg args ''title'') then arg args ''title'' else title n,
                      content := if truthy (arg args ''content'') then arg args ''content''
                                 else content n,
                      tags := if truthy (arg args ''tags'') then arg args ''tags'' else tags n,
                      updatedAt := clk 0 \<rparr>) notes)"
  using assms
  by (simp add: CallTool_handler_def tool_switch_def update_note_def Let_def)

text \<open>
  Claim C2, as stated, fails at the empty string: \<^verbatim>\<open>update_note\<close> with the empty string as
  content succeeds and refreshes the update time, but the content stays what it was.
\<close>

theorem update_note_empty_content_counterexample:
  "CallTool_handler ''update_note'' (Some [(''id'', JStr ''1000''), (''content'', JStr '''')])
       (fixed_clock 5000) [(''1000'', note_A)] =
     Inr (\<lparr> result_content = [Text ''Note 1000 updated successfully''], isError = False \<rparr>,
          [(''1000'', note_A\<lparr> updatedAt := 5000 \<rparr>)])
   \<and> content (note_A\<lparr> updatedAt := 5000 \<rparr>) = JStr ''x''
   \<and> JStr ''x'' \<noteq> JStr ''''"
  by (simp add: handler_eval note_A_def)

text \<open>
  Claim C2, amended. \<^verbatim>\<open>update_note\<close> on the id of a stored Note succeeds, and afterwards
  that Note has each of title, content and tags replaced by the argument when the argument
  is truthy and untouched when it is absent or falsy (the empty string among them); its
  update time is the clock reading of the call, so it is not earlier than before when the
  clock has not gone back; id and creation time are kept, and no other Note changes. In
  particular, with a non-empty string \<open>X\<close> as content and no title and tags given, the
  content becomes \<open>X\<close> and title and tags stay.
\<close>

theorem update_note_truthy_partial:
  assumes "arg args ''id'' = JStr i" and "map_of notes i = Some n"
  shows "\<exists>notes' n'.
           CallTool_handler ''update_note'' args clk notes =
             Inr (\<lparr> result_content = [Text (''Note '' @ i @ '' updated successfully'')],
                    isError = False \<rparr>, notes')
         \<and> map_of notes' i = Some n'
         \<and> n' = n\<lparr> title := if truthy (arg args ''title'') then arg args ''title'' else title n,
                     content := if truthy (arg args ''content'') then arg args ''content''
                                else content n,
                     tags := if truthy (arg args ''tags'') then arg args ''tags'' else tags n,
                     updatedAt := clk 0 \<rparr>
         \<and> (arg args ''content'' = JStr X \<and> X \<noteq> [] \<and> arg args ''title'' = JUndef
              \<and> arg args ''tags'' = JUndef \<longrightarrow>
                content n' = JStr X \<and> title n' = title n \<and> tags n' = tags n
                \<and> note_id n' = note_id n \<and> createdAt n' = createdAt n)
         \<and> (updatedAt n \<le> clk 0 \<longrightarrow> updatedAt n \<le> updatedAt n')
         \<and> (\<forall>j. j \<noteq> i \<longrightarrow> map_of notes' j = map_of notes j)"
  using update_note_truthy_fields [OF assms, of clk]
  by simp

theorem update_note_truthy_partial_witness:
  "\<exists>notes' n'.
     CallTool_handler ''update_note'' (Some [(''id'', JStr ''1000''), (''content'', JStr ''z'')])
         (fixed_clock 5000) [(''1000'', note_A)] =
       Inr (\<lparr> result_content = [Text ''Note 1000 updated successfully''], isError = False \<rparr>,
            notes')
     \<and> map_of notes' ''1000'' = Some n'
     \<and> content n' = JStr ''z'' \<and> title n' = JStr ''A'' \<and> tags n' = JArr [JStr ''t1'']
     \<and> updatedAt note_A \<le> updatedAt n'"
  using update_note_truthy_partial [of "Some [(''id'', JStr ''1000''), (''content'', JStr ''z'')]"
      "''1000''" "[(''1000'', note_A)]" note_A "fixed_clock 5000" "''z''"]
  by (auto simp: arg_def fixed_clock_def note_A_def)

subsection \<open>Deleting\<close>

lemma map_of_map_delete [simp]:
  "map_of (map_delete (JStr i) notes) j = (if j = i then None else map_of notes j)"
  by (simp add: map_delete_def delete_conv')

lemma tool_switch_delete_present:
  assumes "arg args ''id'' = JStr i" and "map_of notes i \<noteq> None"
  shows "tool_switch ''delete_note'' args clk notes =
           Inr (Text (''Note '' @ i @ '' deleted successfully''), map_delete (JStr i) notes)"
  using assms by (auto simp: tool_switch_def delete_note_def map_has_def Let_def)

lemma tool_switch_absent_string_id:
  assumes "name \<in> {''get_note'', ''update_note'', ''delete_note''}"
    and "arg args ''id'' = JStr i" and "map_of notes i = None"
  shows "tool_switch name args clk notes = Inl (Error (''Note with ID '' @ i @ '' not found''))"
  using tool_switch_absent_id [of name "notes" args clk] assms
  by (simp add: throw_not_found_def)

text \<open>
  Claim C4. When the id argument names a stored Note, \<^verbatim>\<open>delete_note\<close> succeeds and removes
  it; on the store that results, \<^verbatim>\<open>get_note\<close> with that id and a second \<^verbatim>\<open>delete_note\<close>
  with that id both return the not-found error, with the error flag set.
\<close>

theorem delete_note_once:
  assumes "arg args ''id'' = JStr i" and "map_of notes i \<noteq> None"
  shows "CallTool_handler ''delete_note'' args clk notes =
           Inr (\<lparr> result_content = [Text (''Note '' @ i @ '' deleted successfully'')],
                  isError = False \<rparr>, map_delete (JStr i) notes)
       \<and> map_get (map_delete (JStr i) notes) (JStr i) = None
       \<and> CallTool_handler ''get_note'' args clk' (map_delete (JStr i) notes) =
           Inr (\<lparr> result_content = [Text (''Error: Note with ID '' @ i @ '' not found'')],
                  isError = True \<rparr>, map_delete (JStr i) notes)
       \<and> CallTool_handler ''delete_note'' args clk'' (map_delete (JStr i) notes) =
           Inr (\<lparr> result_content = [Text (''Error: Note with ID '' @ i @ '' not found'')],
                  isError = True \<rparr>, map_delete (JStr i) notes)"
proof -
  let ?notes' = "map_delete (JStr i) notes"
  have gone: "map_of ?notes' i = None"
    by simp
  have first: "CallTool_handler ''delete_note'' args clk notes =
      Inr (\<lparr> result_content = [Text (''Note '' @ i @ '' deleted successfully'')],
             isError = False \<rparr>, ?notes')"
    by (rule CallTool_handler_returned [OF tool_switch_delete_present [OF assms]])
  have "tool_switch name args c ?notes' = Inl (Error (''Note with ID '' @ i @ '' not found''))"
    if "name \<in> {''get_note'', ''update_note'', ''delete_note''}" for name c
    by (rule tool_switch_absent_string_id [OF that assms(1) gone])
  then have later: "CallTool_handler name args c ?notes' =
      Inr (\<lparr> result_content = [Text (''Error: Note with ID '' @ i @ '' not found'')],
             isError = True \<rparr>, ?notes')"
    if "name \<in> {''get_note'', ''update_note'', ''delete_note''}" for name c
    using CallTool_handler_caught [of name args c ?notes'] that by simp
  show ?thesis
    using first gone later [of "''get_note''" clk'] later [of "''delete_note''" clk'']
    by simp
qed

theorem delete_note_once_witness:
  "CallTool_handler ''delete_note'' (Some [(''id'', JStr ''1000'')]) (fixed_clock 2000) [(''1000'', note_A)] =
           Inr (\<lparr> result_content = [Text ''Note 1000 deleted successfully''],
                  isError = False \<rparr>, [])
       \<and> CallTool_handler ''get_note'' (Some [(''id'', JStr ''1000'')]) (fixed_clock 2000) [] =
           Inr (\<lparr> result_content = [Text ''Error: Note with ID 1000 not found''],
                  isError = True \<rparr>, [])
       \<and> CallTool_handler ''delete_note'' (Some [(''id'', JStr ''1000'')]) (fixed_clock 2000) [] =
           Inr (\<lparr> result_content = [Text ''Error: Note with ID 1000 not found''],
                  isError = True \<rparr>, [])"
  using delete_note_once [of "Some [(''id'', JStr ''1000'')]" "''1000''" "[(''1000'', note_A)]"
      "fixed_clock 2000" "fixed_clock 2000" "fixed_clock 2000"]
  by (simp add: arg_def map_delete_def)

subsection \<open>Listing by tag\<close>

lemma filter_js_total:
  "\<forall>x \<in> set xs. p x = Inr (q x) \<Longrightarrow> filter_js p xs = Inr (filter q xs)"
  by (induction xs) simp_all

lemma same_value_zero_JStr [simp]: "same_value_zero x (JStr T) = (x = JStr T)"
  by (cases x) simp_all

lemma tags_includes_array: "tags_includes (JArr xs) (JStr T) = Inr (JStr T \<in> set xs)"
  by (simp add: list_ex_iff)

lemma tags_includes_has_tag:
  "is_array (tags n) \<Longrightarrow> tags_includes (tags n) (JStr T) = Inr (has_tag T n)"
  by (cases "tags n") (simp_all add: has_tag_def list_ex_iff)

text \<open>
  Claim C5, amended. On a store whose Notes have arrays as tags, \<^verbatim>\<open>list_notes\<close> with a
  non-empty string \<open>T\<close> as tag returns, in storage order, exactly the stored Notes one of
  whose tags is the string \<open>T\<close> (an empty array when there is none, not an error); with
  no tag argument, or with the empty string as tag, it returns all stored Notes.
\<close>

theorem list_notes_nonempty_tag:
  assumes "array_tags notes"
  shows "(arg args ''tag'' = JStr T \<and> T \<noteq> [] \<longrightarrow>
            CallTool_handler ''list_notes'' args clk notes =
              Inr (\<lparr> result_content = [Stringify_notes (filter (has_tag T) (map_values notes))],
                     isError = False \<rparr>, notes))
       \<and> (arg args ''tag'' = JUndef \<or> arg args ''tag'' = JStr [] \<longrightarrow>
            CallTool_handler ''list_notes'' args clk notes =
              Inr (\<lparr> result_content = [Stringify_notes (map_values notes)],
                     isError = False \<rparr>, notes))"
proof -
  have "filter_js (\<lambda>note. tags_includes (tags note) (JStr T)) (map_values notes) =
          Inr (filter (has_tag T) (map_values notes))"
    using assms
    by (intro filter_js_total) (simp add: tags_includes_has_tag array_tags_def list_all_iff)
  then have "tool_switch ''list_notes'' args clk notes =
          Inr (Stringify_notes (filter (has_tag T) (map_values notes)), notes)"
    if "arg args ''tag'' = JStr T" and "T \<noteq> []"
    using that by (simp add: tool_switch_def list_notes_def)
  moreover have "tool_switch ''list_notes'' args clk notes =
          Inr (Stringify_notes (map_values notes), notes)"
    if "arg args ''tag'' = JUndef \<or> arg args ''tag'' = JStr []"
    using that by (auto simp: tool_switch_def list_notes_def)
  ultimately show ?thesis
    by (auto intro: CallTool_handler_returned)
qed

theorem list_notes_nonempty_tag_witness:
  "array_tags two_notes
   \<and> CallTool_handler ''list_notes'' (Some [(''tag'', JStr ''t1'')]) (fixed_clock 0) two_notes =
       Inr (\<lparr> result_content = [Stringify_notes [note_A]], isError = False \<rparr>, two_notes)
   \<and> CallTool_handler ''list_notes'' (Some [(''tag'', JStr ''T1'')]) (fixed_clock 0) two_notes =
       Inr (\<lparr> result_content = [Stringify_notes []], isError = False \<rparr>, two_notes)
   \<and> CallTool_handler ''list_notes'' None (fixed_clock 0) two_notes =
       Inr (\<lparr> result_content = [Stringify_notes [note_A, note_B]], isError = False \<rparr>, two_notes)"
  using list_notes_nonempty_tag [of two_notes "Some [(''tag'', JStr ''t1'')]" "''t1''" "fixed_clock 0"]
    list_notes_nonempty_tag [of two_notes "Some [(''tag'', JStr ''T1'')]" "''T1''" "fixed_clock 0"]
    list_notes_nonempty_tag [of two_notes None "''''" "fixed_clock 0"]
  by (simp add: arg_def two_notes_def map_values_def note_A_def note_B_def has_tag_def
      array_tags_def)

text \<open>
  Claim C5, as stated, fails at the empty tag: \<^verbatim>\<open>list_notes\<close> with the empty string as
  tag returns a Note that does not carry the empty string as a tag.
\<close>

theorem list_notes_empty_tag_counterexample:
  "CallTool_handler ''list_notes'' (Some [(''tag'', JStr '''')]) (fixed_clock 0) [(''1000'', note_A)] =
     Inr (\<lparr> result_content = [Stringify_notes [note_A]], isError = False \<rparr>, [(''1000'', note_A)])
   \<and> \<not> has_tag '''' note_A"
  by (simp add: CallTool_handler_def tool_switch_def list_notes_def arg_def map_values_def
      has_tag_def note_A_def)

subsection \<open>Searching\<close>


















subsection \<open>The summary view\<close>

lemma string_array_elements:
  assumes "string_array v"
  shows "(case v of JArr xs \<Rightarrow> xs | w \<Rightarrow> [w]) = map JStr (map the_string (elements v))"
proof -
  obtain xs where v: "v = JArr xs" and xs: "list_all is_string xs"
    using assms by (cases v) (simp_all add: string_array_def)
  have "map JStr (map the_string xs) = xs"
    using xs
  proof (induction xs)
    case Nil
    then show ?case by simp
  next
    case (Cons x xs)
    then show ?case by (cases x) simp_all
  qed
  with v show ?thesis by simp
qed

lemma flatMap_tags_typed:
  "\<forall>n \<in> set ns. string_array (tags n) \<Longrightarrow>
   flatMap_tags ns = map JStr (concat (map (\<lambda>n. map the_string (elements (tags n))) ns))"
  by (induction ns) (simp_all add: flatMap_tags_def string_array_elements)

lemma set_add_strings:
  "set_add (map JStr acc) (JStr x) = map JStr (if x \<in> set acc then acc else acc @ [x])"
  by (auto simp: set_add_def list_ex_iff)

lemma foldl_set_add_strings:
  "foldl set_add (map JStr acc) (map JStr xs) =
   map JStr (foldl (\<lambda>a x. if x \<in> set a then a else a @ [x]) acc xs)"
proof (induction xs arbitrary: acc)
  case Nil
  then show ?case by simp
next
  case (Cons x xs)
  show ?case
    using Cons.IH [of "if x \<in> set acc then acc else acc @ [x]"]
    by (simp add: set_add_strings)
qed

lemma remdups_snoc: "remdups (ys @ [x]) = remdups (filter (\<lambda>y. y \<noteq> x) ys) @ [x]"
  by (induction ys) auto

lemma first_occurrences_Cons:
  "first_occurrences (x # xs) = x # first_occurrences (filter (\<lambda>y. y \<noteq> x) xs)"
  by (simp add: first_occurrences_def remdups_snoc rev_filter)

lemma foldl_first_occurrences:
  "foldl (\<lambda>a x. if x \<in> set a then a else a @ [x]) acc xs =
   acc @ first_occurrences (filter (\<lambda>x. x \<notin> set acc) xs)"
proof (induction xs arbitrary: acc)
  case Nil
  then show ?case by (simp add: first_occurrences_def)
next
  case (Cons x xs)
  have "filter (\<lambda>y. y \<noteq> x) (filter (\<lambda>y. y \<notin> set acc) xs) =
        filter (\<lambda>y. y \<notin> set (acc @ [x])) xs"
    by (induction xs) auto
  then show ?case
    using Cons.IH [of acc] Cons.IH [of "acc @ [x]"]
    by (simp add: first_occurrences_Cons)
qed

lemma new_Set_strings: "new_Set (map JStr xs) = map JStr (first_occurrences xs)"
  using foldl_set_add_strings [of "[]" xs] foldl_first_occurrences [of "[]" xs]
  by (simp add: new_Set_def)

lemma join_of_strings: "join sep (map JStr xs) = Inr (join_strings sep xs)"
  by (induction sep xs rule: join_strings.induct) simp_all

lemma length_first_occurrences: "length (first_occurrences xs) = card (set xs)"
  by (simp add: first_occurrences_def length_remdups_card_conv)

lemma trimEnd_spaces: "\<forall>c \<in> set ys. is_space c \<Longrightarrow> trimEnd (xs @ ys) = trimEnd xs"
  by (simp add: trimEnd_def dropWhile_append)

lemma trimEnd_keep: "\<not> is_space c \<Longrightarrow> trimEnd (xs @ c # ys) = xs @ c # trimEnd ys"
  by (simp add: trimEnd_def dropWhile_append)

lemma trim_block:
  assumes "\<not> is_space a" and "\<not> is_space c"
  shows "trim (nl @ a # xs @ c # ys @ nl @ ''      '') = a # xs @ c # trimEnd ys"
proof -
  have "trimStart (nl @ a # xs @ c # ys @ nl @ ''      '') = a # xs @ c # ys @ nl @ ''      ''"
    using assms(1) by (simp add: trimStart_def nl_def is_space_def)
  moreover have "trimEnd ((a # xs) @ c # ys @ nl @ ''      '') = (a # xs) @ c # trimEnd (ys @ nl @ ''      '')"
    by (rule trimEnd_keep [OF assms(2)])
  moreover have "trimEnd (ys @ nl @ ''      '') = trimEnd ys"
    by (rule trimEnd_spaces) (simp add: nl_def is_space_def)
  ultimately show ?thesis
    by (simp add: trim_def)
qed

lemma summary_text_block:
  "summary_text noteCount tagCount joined =
   summary_block noteCount tagCount (trimEnd ('' '' @ (if joined \<noteq> [] then joined else ''none'')))"
proof -
  let ?line = "if joined \<noteq> [] then joined else ''none''"
  let ?xs = "''otes Summary'' @ nl @ ''============='' @ nl
     @ ''Total notes: '' @ nat_toString noteCount @ nl
     @ ''Unique tags: '' @ nat_toString tagCount @ nl @ ''Tags''"
  have "summary_text noteCount tagCount joined =
        trim (nl @ CHR ''N'' # ?xs @ CHR '':'' # ('' '' @ ?line) @ nl @ ''      '')"
    by (simp add: summary_text_def)
  also have "\<dots> = CHR ''N'' # ?xs @ CHR '':'' # trimEnd ('' '' @ ?line)"
    by (rule trim_block) (simp_all add: is_space_def)
  also have "\<dots> = summary_block noteCount tagCount (trimEnd ('' '' @ ?line))"
    by (simp add: summary_block_def)
  finally show ?thesis .
qed

text \<open>
  Claim C7, amended. On a store whose Notes have arrays of strings as tags, reading
  \<^verbatim>\<open>notes://summary\<close> returns one plain-text item: the heading, the number of stored
  Notes, the number of distinct tag values, and a last line with the distinct tag values,
  each at its first occurrence, joined by a comma and a space. The last line reads
  \<^verbatim>\<open>none\<close> when that joined text is empty, as it is when there are no tags, and white
  space at its end is removed.
\<close>

theorem summary_view:
  assumes "string_tags notes"
  shows "ReadResource_handler ''notes://summary'' notes =
           Inr [\<lparr> uri = ''notes://summary'', mimeType = ''text/plain'',
                   resource_text = Text (summary_block (length notes) (card (set (all_tags notes)))
                     (trimEnd ('' '' @
                        (if join_strings '', '' (first_occurrences (all_tags notes)) \<noteq> []
                         then join_strings '', '' (first_occurrences (all_tags notes))
                         else ''none'')))) \<rparr>]
       \<and> distinct (first_occurrences (all_tags notes))
       \<and> set (first_occurrences (all_tags notes)) = set (all_tags notes)"
proof -
  have "new_Set (flatMap_tags (map_values notes)) = map JStr (first_occurrences (all_tags notes))"
    using assms flatMap_tags_typed [of "map_values notes"]
    by (simp add: new_Set_strings all_tags_def string_tags_def list_all_iff)
  then have "ReadResource_handler ''notes://summary'' notes =
           Inr [\<lparr> uri = ''notes://summary'', mimeType = ''text/plain'',
                   resource_text = Text (summary_block (length notes) (card (set (all_tags notes)))
                     (trimEnd ('' '' @
                        (if join_strings '', '' (first_occurrences (all_tags notes)) \<noteq> []
                         then join_strings '', '' (first_occurrences (all_tags notes))
                         else ''none'')))) \<rparr>]"
    by (simp add: ReadResource_handler_def join_of_strings length_first_occurrences
        summary_text_block map_values_def)
  moreover have "distinct (first_occurrences xs)" and "set (first_occurrences xs) = set xs"
    for xs :: "string list"
    by (simp_all add: first_occurrences_def)
  ultimately show ?thesis
    by simp
qed

theorem summary_view_witness:
  "string_tags three_notes
   \<and> ReadResource_handler ''notes://summary'' three_notes =
       Inr [\<lparr> uri = ''notes://summary'', mimeType = ''text/plain'',
               resource_text = Text (''Notes Summary'' @ nl @ ''============='' @ nl
                 @ ''Total notes: 3'' @ nl @ ''Unique tags: 2'' @ nl
                 @ ''Tags: work, personal'') \<rparr>]"
  using summary_view [of three_notes]
  by (simp add: three_notes_def map_values_def note_W1_def note_W2_def note_P_def
      string_array_def all_tags_def first_occurrences_def summary_block_def
      nat_toString.simps digit_char_def trimEnd_def is_space_def string_tags_def)

text \<open>
  Claim C7, as stated, fails on a store whose only tag is the empty string: there is one
  distinct tag value and the view counts it, yet the last line reads \<^verbatim>\<open>none\<close>.
\<close>

theorem summary_empty_tag_counterexample:
  "ReadResource_handler ''notes://summary'' [(''3000'', note_E)] =
     Inr [\<lparr> uri = ''notes://summary'', mimeType = ''text/plain'',
             resource_text = Text (''Notes Summary'' @ nl @ ''============='' @ nl
               @ ''Total notes: 1'' @ nl @ ''Unique tags: 1'' @ nl
               @ ''Tags: none'') \<rparr>]
   \<and> all_tags [(''3000'', note_E)] = ['''']"
  by (simp add: ReadResource_handler_def map_values_def note_E_def flatMap_tags_def
      new_Set_def set_add_def summary_text_def trim_def trimStart_def trimEnd_def
      is_space_def nl_def all_tags_def nat_toString.simps digit_char_def)

end
